theory Spec2Isabelle
  imports Complex_Main "HOL-Library.List_Lexorder"
begin

section \<open>Text and spreadsheet cells\<close>

text \<open>
  A Python \<open>str\<close> is a sequence of Unicode code points, and \<open>len\<close> counts code points.
  The literals of the script are Chinese, so text is modelled as a list of code points
  (natural numbers); \<open>u\<close> turns an ASCII literal into such a list.
\<close>

type_synonym ustring = "nat list"

definition u :: "string \<Rightarrow> ustring" where
  "u s = map of_char s"

text \<open>The three literals of the script, by code point: the stock-code sentinel
  (two characters, "unknown"), the industry sentinel (four characters, "unknown industry")
  and the industry selector's first entry (two characters, "all").\<close>

definition unknown_code :: ustring where
  "unknown_code = [26410, 30693]"

definition unknown_industry :: ustring where
  "unknown_industry = [26410, 30693, 34892, 19994]"

definition all_industries :: ustring where
  "all_industries = [20840, 37096]"

text \<open>
  A cell of the data frame as \<open>read_excel\<close> delivers it: missing (NaN), text, an integer,
  a float or a boolean. The script never looks at the column's dtype, only at the
  single values.
\<close>

datatype cell = Null | S ustring | I int | F real | B bool

text \<open>\<open>str(n)\<close> for an integer: decimal digits, a minus sign for negative numbers.\<close>

fun dec_nat :: "nat \<Rightarrow> ustring" where
  "dec_nat n = (if n < 10 then [48 + n] else dec_nat (n div 10) @ [48 + n mod 10])"

declare dec_nat.simps [simp del]

definition str_int :: "int \<Rightarrow> ustring" where
  "str_int i = (if i < 0 then 45 # dec_nat (nat (- i)) else dec_nat (nat i))"

definition str_bool :: "bool \<Rightarrow> ustring" where
  "str_bool b = (if b then u ''True'' else u ''False'')"

text \<open>
  What the script takes from its libraries without the repository defining it:
  the text of a float (\<open>str(x)\<close>) and the integer a text denotes (\<open>int(s)\<close>, \<open>None\<close>
  where Python raises ValueError).
\<close>

record py_env =
  float_str :: "real \<Rightarrow> ustring"
  int_of_str :: "ustring \<Rightarrow> int option"

fun py_str :: "py_env \<Rightarrow> cell \<Rightarrow> ustring" where
  "py_str env Null = u ''nan''"
| "py_str env (S s) = s"
| "py_str env (I i) = str_int i"
| "py_str env (F x) = float_str env x"
| "py_str env (B b) = str_bool b"

text \<open>\<open>isinstance(x, (str, int))\<close>: \<open>bool\<close> is a subclass of \<open>int\<close>; NaN is a float.\<close>

fun is_str_or_int :: "cell \<Rightarrow> bool" where
  "is_str_or_int (S s) = True"
| "is_str_or_int (I i) = True"
| "is_str_or_int (B b) = True"
| "is_str_or_int (F x) = False"
| "is_str_or_int Null = False"

text \<open>
  \<open>s.zfill(width)\<close>: a text at least \<open>width\<close> long is returned as it is; otherwise
  zeros are added on the left, after a leading sign \<open>+\<close> (43) or \<open>-\<close> (45) if there is one.
\<close>

fun zfill :: "nat \<Rightarrow> ustring \<Rightarrow> ustring" where
  "zfill w [] = replicate w 48"
| "zfill w (c # cs) =
     (if w \<le> length (c # cs) then c # cs
      else if c = 43 \<or> c = 45 then c # replicate (w - length (c # cs)) 48 @ cs
      else replicate (w - length (c # cs)) 48 @ c # cs)"

section \<open>load_data\<close>

text \<open>A row as the spreadsheet has it: every column may hold any kind of cell.\<close>

record raw_row =
  raw_stock_code :: cell
  raw_company_name :: cell
  raw_year :: cell
  raw_industry_name :: cell
  raw_index_score :: cell
  raw_total_words :: cell

text \<open>Line 31, the function applied to every stock code.\<close>

definition pad_code :: "py_env \<Rightarrow> cell \<Rightarrow> cell" where
  "pad_code env x =
     (if is_str_or_int x \<and> py_str env x \<noteq> unknown_code \<and> length (py_str env x) < 6
      then S (zfill 6 (py_str env x)) else x)"

text \<open>
  Line 33, \<open>astype(str)\<close> on one value of an object column: \<open>str\<close> is applied to whatever
  is there, a missing value included (it becomes the text \<open>nan\<close>).
\<close>

definition astype_str :: "py_env \<Rightarrow> cell \<Rightarrow> cell" where
  "astype_str env x = S (py_str env x)"

definition normalize_stock_code :: "py_env \<Rightarrow> cell \<Rightarrow> cell" where
  "normalize_stock_code env x = astype_str env (pad_code env x)"

text \<open>Line 34, \<open>dropna\<close> on the three columns.\<close>

definition complete :: "raw_row \<Rightarrow> bool" where
  "complete r \<longleftrightarrow>
     raw_stock_code r \<noteq> Null \<and> raw_company_name r \<noteq> Null \<and> raw_index_score r \<noteq> Null"

text \<open>
  Line 37, \<open>astype(int)\<close> on one year: an integer stays, a boolean becomes 0 or 1, a float
  is truncated towards zero, a text goes through \<open>int\<close>, a missing value raises.
\<close>

definition py_trunc :: "real \<Rightarrow> int" where
  "py_trunc x = (if 0 \<le> x then \<lfloor>x\<rfloor> else \<lceil>x\<rceil>)"

fun to_int :: "py_env \<Rightarrow> cell \<Rightarrow> int option" where
  "to_int env Null = None"
| "to_int env (S s) = int_of_str env s"
| "to_int env (I i) = Some i"
| "to_int env (F x) = Some (py_trunc x)"
| "to_int env (B b) = Some (if b then 1 else 0)"

fun years_astype_int :: "py_env \<Rightarrow> raw_row list \<Rightarrow> raw_row list option" where
  "years_astype_int env [] = Some []"
| "years_astype_int env (r # rs) =
     (case to_int env (raw_year r) of
        None \<Rightarrow> None
      | Some y \<Rightarrow>
          (case years_astype_int env rs of
             None \<Rightarrow> None
           | Some rs' \<Rightarrow> Some (r\<lparr>raw_year := I y\<rparr> # rs')))"

text \<open>
  \<open>load_data\<close>: the argument is what \<open>read_excel\<close> returned, \<open>None\<close> when it raised.
  Every exception inside the \<open>try\<close> block makes the function return \<open>None\<close>.
\<close>

definition load_data :: "py_env \<Rightarrow> raw_row list option \<Rightarrow> raw_row list option" where
  "load_data env sheet =
     (case sheet of
        None \<Rightarrow> None
      | Some df \<Rightarrow>
          years_astype_int env
            (filter complete
               (map (\<lambda>r. r\<lparr>raw_stock_code := normalize_stock_code env (raw_stock_code r)\<rparr>) df)))"

section \<open>Searching text: \<open>Series.str.contains(pat, case=False)\<close>\<close>

text \<open>
  \<open>str.contains\<close> is called without \<open>regex=False\<close>, so pandas compiles the search text
  with \<open>re.compile(pat, re.IGNORECASE)\<close> and keeps an element when \<open>re.search\<close> finds a
  match anywhere in it. The part of Python's pattern language modelled here: ordinary
  characters, the dot, the postfix operators \<open>*\<close>, \<open>+\<close>, \<open>?\<close>, alternation and plain
  groups. \<open>ReError\<close> is Python's \<open>re.error\<close>, \<open>ValueError\<close> is raised further down by
  \<open>int\<close> on NaN. A text using anything else (classes, anchors, braces, escapes, group
  extensions, a quantifier on a quantifier, letters outside ASCII other than CJK
  ideographs) gets the result \<open>NotModelled\<close>: the model says nothing about it.
\<close>

datatype py_error = ReError | ValueError | NotModelled

datatype rexp = Zero | One | Lit nat | Dot | Seq rexp rexp | Alt rexp rexp | Star rexp

definition lower_ascii :: "nat \<Rightarrow> nat" where
  "lower_ascii c = (if 65 \<le> c \<and> c \<le> 90 then c + 32 else c)"

text \<open>
  Under IGNORECASE a letter of the pattern matches both of its cases; Python's manual
  names the four letters outside ASCII that ASCII letters match as well: U+0130 and
  U+0131 (for \<open>i\<close>), U+017F (for \<open>s\<close>) and U+212A (for \<open>k\<close>).
\<close>

definition ieq :: "nat \<Rightarrow> nat \<Rightarrow> bool" where
  "ieq c d \<longleftrightarrow>
     lower_ascii d = lower_ascii c \<or>
     (lower_ascii c = 105 \<and> (d = 304 \<or> d = 305)) \<or>
     (lower_ascii c = 115 \<and> d = 383) \<or>
     (lower_ascii c = 107 \<and> d = 8490)"

text \<open>The characters with a meaning of their own: \<open>. ^ $ * + ? { } [ ] \ | ( )\<close>.\<close>

definition special :: "nat \<Rightarrow> bool" where
  "special c \<longleftrightarrow> c \<in> set [46, 94, 36, 42, 43, 63, 123, 125, 91, 93, 92, 124, 40, 41]"

definition plain :: "nat \<Rightarrow> bool" where
  "plain c \<longleftrightarrow> (c < 128 \<and> \<not> special c) \<or> (19968 \<le> c \<and> c \<le> 40959)"

definition branch :: "rexp list \<Rightarrow> rexp" where
  "branch items = foldr Seq (rev items) One"

definition close_group :: "rexp list \<Rightarrow> rexp list \<Rightarrow> rexp" where
  "close_group alts items = foldr Alt (rev alts) (branch items)"

definition quantify :: "nat \<Rightarrow> rexp \<Rightarrow> rexp" where
  "quantify c r = (if c = 42 then Star r else if c = 43 then Seq r (Star r) else Alt r One)"

text \<open>
  The parser reads the pattern from left to right and stops at the first error, as
  \<open>re.compile\<close> does. \<open>stk\<close> holds the enclosing groups, \<open>alts\<close> the finished alternatives
  of the current group, \<open>items\<close> the items of the current alternative (both newest
  first), \<open>q\<close> says that the last item has just been quantified.
\<close>

fun parse :: "(rexp list \<times> rexp list) list \<Rightarrow> rexp list \<Rightarrow> rexp list \<Rightarrow> bool \<Rightarrow> ustring
    \<Rightarrow> py_error + rexp" where
  "parse stk alts items q [] =
     (if stk = [] then Inr (close_group alts items) else Inl ReError)"
| "parse stk alts items q (c # cs) =
     (if c = 40 then
        (case cs of
           [] \<Rightarrow> Inl ReError
         | c' # _ \<Rightarrow> if c' = 63 then Inl NotModelled else parse ((alts, items) # stk) [] [] False cs)
      else if c = 41 then
        (case stk of
           [] \<Rightarrow> Inl ReError
         | (alts', items') # stk' \<Rightarrow> parse stk' alts' (close_group alts items # items') False cs)
      else if c = 124 then parse stk (branch items # alts) [] False cs
      else if c = 42 \<or> c = 43 \<or> c = 63 then
        (case items of
           [] \<Rightarrow> Inl ReError
         | r # rs \<Rightarrow> if q then Inl NotModelled else parse stk alts (quantify c r # rs) True cs)
      else if c = 46 then parse stk alts (Dot # items) False cs
      else if plain c then parse stk alts (Lit c # items) False cs
      else Inl NotModelled)"

definition re_compile :: "ustring \<Rightarrow> py_error + rexp" where
  "re_compile pat = parse [] [] [] False pat"

text \<open>Matching by derivatives. The dot matches every character but the newline (10).\<close>

fun nullable :: "rexp \<Rightarrow> bool" where
  "nullable Zero = False"
| "nullable One = True"
| "nullable (Lit c) = False"
| "nullable Dot = False"
| "nullable (Seq r s) = (nullable r \<and> nullable s)"
| "nullable (Alt r s) = (nullable r \<or> nullable s)"
| "nullable (Star r) = True"

fun deriv :: "nat \<Rightarrow> rexp \<Rightarrow> rexp" where
  "deriv d Zero = Zero"
| "deriv d One = Zero"
| "deriv d (Lit c) = (if ieq c d then One else Zero)"
| "deriv d Dot = (if d = 10 then Zero else One)"
| "deriv d (Seq r s) =
     (if nullable r then Alt (Seq (deriv d r) s) (deriv d s) else Seq (deriv d r) s)"
| "deriv d (Alt r s) = Alt (deriv d r) (deriv d s)"
| "deriv d (Star r) = Seq (deriv d r) (Star r)"

text \<open>\<open>match_here r s\<close>: some prefix of \<open>s\<close> matches \<open>r\<close>; \<open>re_search\<close> tries every start.\<close>

fun match_here :: "rexp \<Rightarrow> ustring \<Rightarrow> bool" where
  "match_here r [] = nullable r"
| "match_here r (d # ds) = (nullable r \<or> match_here (deriv d r) ds)"

fun re_search :: "rexp \<Rightarrow> ustring \<Rightarrow> bool" where
  "re_search r [] = nullable r"
| "re_search r (d # ds) = (match_here r (d # ds) \<or> re_search r ds)"

text \<open>The call on a column: the pattern is compiled once, before any element is looked at.\<close>

definition str_contains :: "ustring \<Rightarrow> ustring list \<Rightarrow> py_error + bool list" where
  "str_contains pat col =
     (case re_compile pat of Inl e \<Rightarrow> Inl e | Inr r \<Rightarrow> Inr (map (re_search r) col))"

section \<open>The loaded table\<close>

text \<open>
  The dashboard compares years with an integer, scores with numbers and searches names
  and codes as text. It is modelled on rows whose cells have these kinds; \<open>as_row\<close>
  reads such a row from a loaded one. The industry may still be missing (\<open>None\<close>) after
  the load; the word count is only displayed. The seven technology columns feed the
  radar chart alone and are left out.
\<close>

record row =
  stock_code :: ustring
  company_name :: ustring
  year :: int
  industry_name :: "ustring option"
  index_score :: real
  total_words :: cell

fun as_number :: "cell \<Rightarrow> real option" where
  "as_number (I i) = Some (of_int i)"
| "as_number (F x) = Some x"
| "as_number c = None"

fun as_row :: "raw_row \<Rightarrow> row option" where
  "as_row r =
     (case (raw_stock_code r, raw_company_name r, raw_year r, as_number (raw_index_score r)) of
        (S c, S n, I y, Some x) \<Rightarrow>
          (case raw_industry_name r of
             Null \<Rightarrow> Some \<lparr>stock_code = c, company_name = n, year = y, industry_name = None,
                           index_score = x, total_words = raw_total_words r\<rparr>
           | S i \<Rightarrow> Some \<lparr>stock_code = c, company_name = n, year = y, industry_name = Some i,
                          index_score = x, total_words = raw_total_words r\<rparr>
           | _ \<Rightarrow> None)
      | _ \<Rightarrow> None)"

section \<open>Sidebar\<close>

text \<open>What the user has chosen in the four widgets.\<close>

record selection =
  selected_year :: int
  selected_industry :: ustring
  index_range :: "int \<times> int"
  company_search :: ustring

text \<open>Line 61: the industry column of \<open>df\<close> is replaced by its \<open>fillna\<close>.\<close>

definition fillna_industry :: "row \<Rightarrow> row" where
  "fillna_industry r =
     r\<lparr>industry_name :=
         Some (case industry_name r of None \<Rightarrow> unknown_industry | Some i \<Rightarrow> i)\<rparr>"

text \<open>Aggregates of a column of numbers; \<open>None\<close> is the NaN pandas returns for no values.\<close>

definition mean_of :: "real list \<Rightarrow> real" where
  "mean_of xs = sum_list xs / real (length xs)"

definition series_mean :: "real list \<Rightarrow> real option" where
  "series_mean xs = (if xs = [] then None else Some (mean_of xs))"

fun series_max :: "real list \<Rightarrow> real option" where
  "series_max [] = None"
| "series_max (x # xs) = Some (fold max xs x)"

fun series_min :: "real list \<Rightarrow> real option" where
  "series_min [] = None"
| "series_min (x # xs) = Some (fold min xs x)"

text \<open>\<open>int(x)\<close> on an aggregate: NaN raises ValueError, a number is truncated.\<close>

definition py_int :: "real option \<Rightarrow> py_error + int" where
  "py_int x = (case x of None \<Rightarrow> Inl ValueError | Some v \<Rightarrow> Inr (py_trunc v))"

text \<open>Lines 66 to 73: the ends of the slider, which are also its default value.\<close>

definition slider_bounds :: "row list \<Rightarrow> py_error + (int \<times> int)" where
  "slider_bounds df =
     (case py_int (series_min (map index_score df)) of
        Inl e \<Rightarrow> Inl e
      | Inr min_index \<Rightarrow>
          (case py_int (series_max (map index_score df)) of
             Inl e \<Rightarrow> Inl e
           | Inr max_index \<Rightarrow> Inr (min_index, max_index)))"

section \<open>Filtering\<close>

text \<open>
  Every filter of the script builds a boolean column and indexes the frame with it:
  \<open>frame[mask]\<close> keeps the rows whose mask entry is true, in their order.
\<close>

definition select_rows :: "'a list \<Rightarrow> bool list \<Rightarrow> 'a list" where
  "select_rows frame keep = map fst (filter snd (zip frame keep))"

definition mask_and :: "bool list \<Rightarrow> bool list \<Rightarrow> bool list" where
  "mask_and a b = map2 (\<and>) a b"

definition mask_or :: "bool list \<Rightarrow> bool list \<Rightarrow> bool list" where
  "mask_or a b = map2 (\<or>) a b"

definition filter_year :: "row list \<Rightarrow> int \<Rightarrow> row list" where
  "filter_year frame y = select_rows frame (map (\<lambda>r. year r = y) frame)"

definition filter_industry :: "row list \<Rightarrow> ustring \<Rightarrow> row list" where
  "filter_industry frame ind =
     (if ind \<noteq> all_industries
      then select_rows frame (map (\<lambda>r. industry_name r = Some ind) frame)
      else frame)"

definition filter_range :: "row list \<Rightarrow> int \<times> int \<Rightarrow> row list" where
  "filter_range frame rng =
     select_rows frame
       (mask_and (map (\<lambda>r. of_int (fst rng) \<le> index_score r) frame)
                 (map (\<lambda>r. index_score r \<le> of_int (snd rng)) frame))"

text \<open>The mask of lines 92 and 93, also used by the trend chart (lines 225 and 226).\<close>

definition search_mask :: "row list \<Rightarrow> ustring \<Rightarrow> py_error + bool list" where
  "search_mask frame pat =
     (case str_contains pat (map company_name frame) of
        Inl e \<Rightarrow> Inl e
      | Inr by_name \<Rightarrow>
          (case str_contains pat (map stock_code frame) of
             Inl e \<Rightarrow> Inl e
           | Inr by_code \<Rightarrow> Inr (mask_or by_name by_code)))"

definition filter_search :: "row list \<Rightarrow> ustring \<Rightarrow> py_error + row list" where
  "filter_search frame pat =
     (if pat \<noteq> [] then
        (case search_mask frame pat of
           Inl e \<Rightarrow> Inl e
         | Inr keep \<Rightarrow> Inr (select_rows frame keep))
      else Inr frame)"

text \<open>Lines 79 to 94.\<close>

definition filtered_df :: "row list \<Rightarrow> selection \<Rightarrow> py_error + row list" where
  "filtered_df df sel =
     filter_search
       (filter_range
          (filter_industry (filter_year df (selected_year sel)) (selected_industry sel))
          (index_range sel))
       (company_search sel)"

section \<open>Sorting and grouping\<close>

text \<open>
  \<open>sort_values\<close> is modelled by the stable insertion sort \<open>sort_key\<close>; the descending
  variant sorts by the negated key. pandas sorts with an unstable quicksort by default,
  so the order among equal keys is the model's choice; nothing proved below depends
  on it. \<open>groupby\<close> lists the groups by ascending key and leaves out missing keys.
\<close>

definition sort_values_desc :: "('a \<Rightarrow> real) \<Rightarrow> 'a list \<Rightarrow> 'a list" where
  "sort_values_desc k xs = sort_key (\<lambda>x. - k x) xs"

definition group_keys :: "row list \<Rightarrow> ustring list" where
  "group_keys frame = sort (remdups (List.map_filter industry_name frame))"

definition group_rows :: "row list \<Rightarrow> ustring \<Rightarrow> row list" where
  "group_rows frame k = filter (\<lambda>r. industry_name r = Some k) frame"

section \<open>Overview cards (lines 101 to 148)\<close>

text \<open>
  A metric card shows a whole number, a number formatted with one decimal
  (\<open>f"{x:.1f}"\<close>, the formatting itself is not modelled), the text \<open>N/A\<close>, or it is an
  empty placeholder (\<open>st.empty()\<close>).
\<close>

datatype metric = Blank | Whole int | One_decimal real | Not_available

text \<open>Line 132: the three industries with the most rows of the whole table.\<close>

definition top_industries :: "row list \<Rightarrow> ustring list" where
  "top_industries df =
     take 3 (map fst (sort_values_desc (\<lambda>p. real (snd p))
        (map (\<lambda>k. (k, length (group_rows df k))) (group_keys df))))"

record overview =
  count_card :: metric
  mean_card :: metric
  max_card :: metric
  min_card :: metric
  no_data_notice :: "ustring list option"

definition avg_index :: "row list \<Rightarrow> real option" where
  "avg_index frame = series_mean (map index_score frame)"

definition max_index :: "row list \<Rightarrow> real option" where
  "max_index frame = series_max (map index_score frame)"

definition min_index :: "row list \<Rightarrow> real option" where
  "min_index frame = series_min (map index_score frame)"

definition summary :: "row list \<Rightarrow> row list \<Rightarrow> overview" where
  "summary df frame =
     (if frame = [] then
        \<lparr>count_card = Whole (int (length frame)), mean_card = Blank, max_card = Blank,
         min_card = Blank, no_data_notice = Some (top_industries df)\<rparr>
      else
        \<lparr>count_card = Whole (int (length frame)),
         mean_card = (case avg_index frame of Some a \<Rightarrow> One_decimal a | None \<Rightarrow> Not_available),
         max_card = (case max_index frame of Some m \<Rightarrow> Whole (py_trunc m) | None \<Rightarrow> Whole 0),
         min_card = (case min_index frame of Some m \<Rightarrow> Whole (py_trunc m) | None \<Rightarrow> Whole 0),
         no_data_notice = None\<rparr>)"

section \<open>Ranking table (lines 190 to 201)\<close>

record ranked_row =
  rank :: nat
  rk_stock_code :: ustring
  rk_company_name :: ustring
  rk_industry_name :: "ustring option"
  rk_index_score :: real
  rk_total_words :: cell

definition ranked_df :: "row list \<Rightarrow> row list" where
  "ranked_df frame = sort_values_desc index_score frame"

definition with_rank :: "nat \<Rightarrow> row \<Rightarrow> ranked_row" where
  "with_rank k r =
     \<lparr>rank = k, rk_stock_code = stock_code r, rk_company_name = company_name r,
      rk_industry_name = industry_name r, rk_index_score = index_score r,
      rk_total_words = total_words r\<rparr>"

definition rank_and_truncate :: "row list \<Rightarrow> nat \<Rightarrow> ranked_row list" where
  "rank_and_truncate frame limit =
     (let top = take limit (ranked_df frame)
      in map2 with_rank [1..<Suc (length top)] top)"

definition display_df :: "row list \<Rightarrow> ranked_row list" where
  "display_df frame = rank_and_truncate frame 20"

section \<open>Industry comparison (lines 204 to 217)\<close>

definition industry_ranking :: "row list \<Rightarrow> (ustring \<times> real) list" where
  "industry_ranking industry_comparison =
     sort_values_desc snd
       (map (\<lambda>k. (k, mean_of (map index_score (group_rows industry_comparison k))))
            (group_keys industry_comparison))"

definition industry_avg :: "row list \<Rightarrow> int \<Rightarrow> (ustring \<times> real) list" where
  "industry_avg df y = industry_ranking (filter_year df y)"

section \<open>Trend chart (lines 220 to 240)\<close>

datatype trend_view = No_chart | No_match_info | Line_chart ustring "(int \<times> real) list"

definition trend_df :: "row list \<Rightarrow> ustring \<Rightarrow> py_error + row list" where
  "trend_df df pat =
     (case search_mask df pat of
        Inl e \<Rightarrow> Inl e
      | Inr keep \<Rightarrow> Inr (sort_key year (select_rows df keep)))"

definition company_trend :: "row list \<Rightarrow> ustring \<Rightarrow> py_error + trend_view" where
  "company_trend df pat =
     (if pat \<noteq> [] then
        (case trend_df df pat of
           Inl e \<Rightarrow> Inl e
         | Inr [] \<Rightarrow> Inr No_match_info
         | Inr (r # rs) \<Rightarrow>
             Inr (Line_chart (company_name r)
                    (map (\<lambda>t. (year t, index_score t)) (r # rs))))
      else Inr No_chart)"

section \<open>The script\<close>

text \<open>
  One run of the script after a successful load. \<open>df\<close> is the script's variable of that
  name: line 61 assigns to its industry column, everything later reads it. The page
  records what each block hands to the widgets; an exception ends the run.
\<close>

record page =
  df_after :: "row list"
  filtered :: "row list"
  cards :: overview
  ranking_table :: "ranked_row list"
  industry_chart :: "(ustring \<times> real) list"
  trend :: trend_view

definition run :: "row list \<Rightarrow> selection \<Rightarrow> py_error + page" where
  "run loaded sel =
     (let df = map fillna_industry loaded in
      case slider_bounds df of
        Inl e \<Rightarrow> Inl e
      | Inr bounds \<Rightarrow>
          (case filtered_df df sel of
             Inl e \<Rightarrow> Inl e
           | Inr frame \<Rightarrow>
               (case company_trend df (company_search sel) of
                  Inl e \<Rightarrow> Inl e
                | Inr t \<Rightarrow>
                    Inr \<lparr>df_after = df, filtered = frame, cards = summary df frame,
                         ranking_table = display_df frame,
                         industry_chart = take 10 (industry_avg df (selected_year sel)),
                         trend = t\<rparr>)))"

section \<open>The specification's search rule, and example data\<close>

text \<open>
  The specification describes the search as: the text occurs in the field as a
  case-insensitive substring. \<open>spec_contains\<close> is that rule, letter by letter with the
  same comparison of letters as above, and no character of the text has a meaning
  of its own.
\<close>

fun starts_with_ci :: "ustring \<Rightarrow> ustring \<Rightarrow> bool" where
  "starts_with_ci s [] = True"
| "starts_with_ci [] (c # cs) = False"
| "starts_with_ci (d # ds) (c # cs) = (ieq c d \<and> starts_with_ci ds cs)"

fun spec_contains :: "ustring \<Rightarrow> ustring \<Rightarrow> bool" where
  "spec_contains pat [] = (pat = [])"
| "spec_contains pat (d # ds) = (starts_with_ci (d # ds) pat \<or> spec_contains pat ds)"

text \<open>
  An environment for evaluating inputs that hold neither floats nor years written
  as text: its two functions are not called on them.
\<close>

definition sample_env :: py_env where
  "sample_env = \<lparr>float_str = (\<lambda>x. []), int_of_str = (\<lambda>s. None)\<rparr>"


definition sample_row :: "string \<Rightarrow> string \<Rightarrow> int \<Rightarrow> string \<Rightarrow> real \<Rightarrow> row" where
  "sample_row code name y ind x =
     \<lparr>stock_code = u code, company_name = u name, year = y, industry_name = Some (u ind),
      index_score = x, total_words = Null\<rparr>"

definition sample_selection :: "int \<Rightarrow> int \<times> int \<Rightarrow> string \<Rightarrow> selection" where
  "sample_selection y rng pat =
     \<lparr>selected_year = y, selected_industry = all_industries, index_range = rng,
      company_search = u pat\<rparr>"


definition chart_of :: "py_error + page \<Rightarrow> (ustring \<times> real) list option" where
  "chart_of res = (case res of Inl e \<Rightarrow> None | Inr pg \<Rightarrow> Some (industry_chart pg))"

section \<open>Ranking table: properties\<close>

lemma map2_with_rank_rank:
  "length ks = length rs \<Longrightarrow> map rank (map2 with_rank ks rs) = ks"
  by (induction ks rs rule: list_induct2) (simp_all add: with_rank_def)

lemma map2_with_rank_score:
  "length ks = length rs \<Longrightarrow> map rk_index_score (map2 with_rank ks rs) = map index_score rs"
  by (induction ks rs rule: list_induct2) (simp_all add: with_rank_def)

lemma sorted_desc_sort_values:
  "sorted_wrt (\<lambda>a b. k b \<le> k a) (sort_values_desc k xs)"
proof -
  have "sorted (map (\<lambda>x. - k x) (sort_key (\<lambda>x. - k x) xs))"
    by (rule sorted_sort_key)
  then show ?thesis
    by (simp add: sort_values_desc_def sorted_map)
qed

lemma sorted_wrt_take_desc:
  "sorted_wrt P xs \<Longrightarrow> sorted_wrt P (take n xs)"
  by (metis append_take_drop_id sorted_wrt_append)

text \<open>
  C5. The ranking table is \<open>rank_and_truncate\<close> with limit 20. For every frame and limit
  the result has \<open>min limit (length frame)\<close> rows, so at most \<open>limit\<close>; its rank column
  is 1, 2, ..., up to the number of rows; its scores are the first \<open>limit\<close> scores of the
  frame sorted by descending score, so they descend.
\<close>

theorem rank_and_truncate_ranked:
  "display_df frame = rank_and_truncate frame 20 \<and>
   length (rank_and_truncate frame limit) = min limit (length frame) \<and>
   length (rank_and_truncate frame limit) \<le> limit \<and>
   map rank (rank_and_truncate frame limit) = [1..<Suc (length (rank_and_truncate frame limit))] \<and>
   sorted_wrt (\<lambda>a b. rk_index_score b \<le> rk_index_score a) (rank_and_truncate frame limit) \<and>
   map rk_index_score (rank_and_truncate frame limit) =
     take limit (map index_score (ranked_df frame)) \<and>
   sorted_wrt (\<lambda>a b. index_score b \<le> index_score a) (ranked_df frame) \<and>
   set (ranked_df frame) = set frame \<and> length (ranked_df frame) = length frame"
proof -
  let ?top = "take limit (ranked_df frame)"
  let ?ks = "[1..<Suc (length ?top)]"
  let ?out = "rank_and_truncate frame limit"
  have len: "length ?ks = length ?top"
    unfolding length_upt by (simp del: length_take)
  have d: "?out = map2 with_rank ?ks ?top"
    by (simp add: rank_and_truncate_def Let_def)
  have l: "length ?out = length ?top"
    unfolding d by (simp only: length_map length_zip len min.idem)
  have lr: "length (ranked_df frame) = length frame"
    by (simp add: ranked_df_def sort_values_desc_def)
  have sr: "set (ranked_df frame) = set frame"
    by (simp add: ranked_df_def sort_values_desc_def)
  have so: "sorted_wrt (\<lambda>a b. index_score b \<le> index_score a) (ranked_df frame)"
    unfolding ranked_df_def by (rule sorted_desc_sort_values)
  have sc: "map rk_index_score ?out = map index_score ?top"
    unfolding d by (rule map2_with_rank_score [OF len])
  have rk: "map rank ?out = ?ks"
    unfolding d by (rule map2_with_rank_rank [OF len])
  have "sorted_wrt (\<lambda>a b. index_score b \<le> index_score a) ?top"
    by (rule sorted_wrt_take_desc [OF so])
  then have "sorted_wrt (\<lambda>a b. b \<le> a) (map index_score ?top)"
    by (simp add: sorted_wrt_map)
  then have "sorted_wrt (\<lambda>a b. b \<le> a) (map rk_index_score ?out)"
    by (simp only: sc)
  then have sd: "sorted_wrt (\<lambda>a b. rk_index_score b \<le> rk_index_score a) ?out"
    by (simp add: sorted_wrt_map)
  have lm: "length ?out = min limit (length frame)"
    using l lr by (simp add: min.commute)
  have rk': "map rank ?out = [1..<Suc (length ?out)]"
    using rk by (simp only: l)
  have sc': "map rk_index_score ?out = take limit (map index_score (ranked_df frame))"
    using sc by (simp only: take_map)
  have dd: "display_df frame = rank_and_truncate frame 20"
    by (simp add: display_df_def)
  from lm have "length ?out \<le> limit" by simp
  with dd lm rk' sd sc' so sr lr show ?thesis by blast
qed

section \<open>load_data: properties\<close>


lemma zfill_long: "w \<le> length s \<Longrightarrow> zfill w s = s"
  by (cases s) auto



lemma normalize_stock_code_eq:
  "normalize_stock_code env x =
     S (if is_str_or_int x \<and> py_str env x \<noteq> unknown_code \<and> length (py_str env x) < 6
        then zfill 6 (py_str env x) else py_str env x)"
  by (simp add: normalize_stock_code_def astype_str_def pad_code_def)







lemma normalize_stock_code_text: "\<exists>s. normalize_stock_code env x = S s"
  by (simp add: normalize_stock_code_def astype_str_def)

lemma complete_after_normalize:
  "complete (r\<lparr>raw_stock_code := normalize_stock_code env (raw_stock_code r)\<rparr>) \<longleftrightarrow>
   raw_company_name r \<noteq> Null \<and> raw_index_score r \<noteq> Null"
  by (simp add: complete_def normalize_stock_code_def astype_str_def)


lemma years_astype_int_Some:
  "years_astype_int env rs = Some out \<Longrightarrow>
   out = map (\<lambda>r. r\<lparr>raw_year := I (the (to_int env (raw_year r)))\<rparr>) rs"
  by (induction rs arbitrary: out) (auto split: option.splits)

lemma load_data_Some_eq:
  "load_data env (Some raw) = Some df \<Longrightarrow>
   df = map (\<lambda>r. r\<lparr>raw_stock_code := normalize_stock_code env (raw_stock_code r),
                    raw_year := I (the (to_int env (raw_year r)))\<rparr>)
          (filter (\<lambda>r. raw_company_name r \<noteq> Null \<and> raw_index_score r \<noteq> Null) raw)"
proof -
  assume a: "load_data env (Some raw) = Some df"
  let ?n = "\<lambda>r. r\<lparr>raw_stock_code := normalize_stock_code env (raw_stock_code r)\<rparr>"
  have f: "filter complete (map ?n raw) =
           map ?n (filter (\<lambda>r. raw_company_name r \<noteq> Null \<and> raw_index_score r \<noteq> Null) raw)"
    by (simp add: filter_map o_def complete_after_normalize)
  from a have "years_astype_int env (filter complete (map ?n raw)) = Some df"
    by (simp add: load_data_def)
  from years_astype_int_Some [OF this] show ?thesis
    unfolding f by (simp add: o_def)
qed



lemma nan_text: "normalize_stock_code sample_env Null = S (u ''nan'')"
  by (simp add: normalize_stock_code_eq)



section \<open>Filtering and searching: properties\<close>

lemma select_rows_map: "select_rows xs (map P xs) = filter P xs"
  by (induction xs) (simp_all add: select_rows_def)

lemma mask_and_map: "mask_and (map P xs) (map Q xs) = map (\<lambda>x. P x \<and> Q x) xs"
  by (induction xs) (simp_all add: mask_and_def)

lemma mask_or_map: "mask_or (map P xs) (map Q xs) = map (\<lambda>x. P x \<or> Q x) xs"
  by (induction xs) (simp_all add: mask_or_def)

lemma filter_year_eq: "filter_year frame y = filter (\<lambda>r. year r = y) frame"
  by (simp add: filter_year_def select_rows_map)


lemma filter_range_eq:
  "filter_range frame rng =
     filter (\<lambda>r. of_int (fst rng) \<le> index_score r \<and> index_score r \<le> of_int (snd rng)) frame"
  by (simp add: filter_range_def mask_and_map select_rows_map)

lemma search_mask_ok:
  "re_compile pat = Inr rx \<Longrightarrow>
   search_mask frame pat =
     Inr (map (\<lambda>r. re_search rx (company_name r) \<or> re_search rx (stock_code r)) frame)"
proof -
  assume c: "re_compile pat = Inr rx"
  have "mask_or (map (re_search rx) (map company_name frame))
                (map (re_search rx) (map stock_code frame)) =
        map (\<lambda>r. re_search rx (company_name r) \<or> re_search rx (stock_code r)) frame"
    by (induction frame) (simp_all add: mask_or_def)
  with c show ?thesis
    by (simp add: search_mask_def str_contains_def)
qed

lemma search_mask_error: "re_compile pat = Inl e \<Longrightarrow> search_mask frame pat = Inl e"
  by (simp add: search_mask_def str_contains_def)






lemmas run_filter_defs =
  filtered_df_def filter_year_def filter_industry_def filter_range_def filter_search_def
  search_mask_def str_contains_def re_compile_def select_rows_def mask_and_def mask_or_def
  sample_row_def sample_selection_def u_def close_group_def branch_def plain_def special_def
  ieq_def lower_ascii_def all_industries_def


text \<open>
  C2 does not hold on the code: the search text is compiled as a regular expression.
  A dot keeps a row in which no dot occurs, and the texts \<open>(\<close> and \<open>*ST\<close> raise
  \<open>re.error\<close> although they occur literally in the company name.
\<close>

theorem search_is_regex_not_literal:
  "filtered_df [sample_row ''000001'' ''Acme'' 2020 ''Tech'' 80]
     (sample_selection 2020 (0, 100) ''.'') =
     Inr [sample_row ''000001'' ''Acme'' 2020 ''Tech'' 80] \<and>
   \<not> spec_contains (u ''.'') (u ''Acme'') \<and> \<not> spec_contains (u ''.'') (u ''000001'') \<and>
   filtered_df [sample_row ''000001'' ''Acme (Group)'' 2020 ''Tech'' 80]
     (sample_selection 2020 (0, 100) ''('') = Inl ReError \<and>
   spec_contains (u ''('') (u ''Acme (Group)'') \<and>
   filtered_df [sample_row ''000001'' ''*ST Acme'' 2020 ''Tech'' 80]
     (sample_selection 2020 (0, 100) ''*ST'') = Inl ReError \<and>
   spec_contains (u ''*ST'') (u ''*ST Acme'')"
  by (simp add: run_filter_defs)

text \<open>
  C3 does not hold on the code: the trend chart plots every row that matches the search
  text, of whichever company, under the name of the first one. With rows of one
  matching company only, the result is the scenario's; with no match there is no chart.
\<close>

theorem company_trend_mixes_companies:
  "company_trend
     [sample_row ''000001'' ''Acme'' 2020 ''Tech'' 80,
      sample_row ''000001'' ''Acme'' 2021 ''Tech'' 90,
      sample_row ''000002'' ''Acme Holdings'' 2022 ''Tech'' 50] (u ''acme'') =
     Inr (Line_chart (u ''Acme'') [(2020, 80), (2021, 90), (2022, 50)]) \<and>
   company_trend
     [sample_row ''000001'' ''Acme'' 2021 ''Tech'' 90,
      sample_row ''000001'' ''Acme'' 2020 ''Tech'' 80,
      sample_row ''000002'' ''Bolt'' 2020 ''Tech'' 50] (u ''acme'') =
     Inr (Line_chart (u ''Acme'') [(2020, 80), (2021, 90)]) \<and>
   company_trend
     [sample_row ''000001'' ''Acme'' 2021 ''Tech'' 90] (u ''bolt'') = Inr No_match_info"
  by (simp add: company_trend_def trend_df_def run_filter_defs)

section \<open>Slider: properties\<close>

lemma series_min_Min: "xs \<noteq> [] \<Longrightarrow> series_min xs = Some (Min (set xs))"
  by (cases xs) (simp_all add: Min.set_eq_fold [symmetric] del: set_simps)

lemma series_max_Max: "xs \<noteq> [] \<Longrightarrow> series_max xs = Some (Max (set xs))"
  by (cases xs) (simp_all add: Max.set_eq_fold [symmetric] del: set_simps)

lemma slider_bounds_nonempty:
  "df \<noteq> [] \<Longrightarrow>
   slider_bounds df =
     Inr (py_trunc (Min (index_score ` set df)), py_trunc (Max (index_score ` set df)))"
  by (simp add: slider_bounds_def py_int_def series_min_Min series_max_Max)

lemma slider_bounds_empty: "slider_bounds [] = Inl ValueError"
  by (simp add: slider_bounds_def py_int_def)

lemma filter_search_subset: "filter_search frame pat = Inr out \<Longrightarrow> set out \<subseteq> set frame"
  by (cases "re_compile pat")
     (auto simp add: filter_search_def search_mask_error search_mask_ok select_rows_map
        split: if_splits)

lemma filtered_df_in_range:
  assumes "filtered_df df sel = Inr out" and "r \<in> set out"
  shows "of_int (fst (index_range sel)) \<le> index_score r \<and>
         index_score r \<le> of_int (snd (index_range sel))"
proof -
  from assms(1) have "set out \<subseteq> set (filter_range
      (filter_industry (filter_year df (selected_year sel)) (selected_industry sel))
      (index_range sel))"
    unfolding filtered_df_def by (rule filter_search_subset)
  with assms(2) show ?thesis
    by (auto simp add: filter_range_eq)
qed

text \<open>
  C10. The ends of the slider, and its default value, are the smallest and the largest
  score of the table truncated to integers. With the range set to these ends, every row
  whose score is above the truncated maximum fails the range filter. In the table of
  Acme (80.5) and Bolt (10) the ends are 10 and 80, and with the year of both rows, all
  industries, no search text and the full range the filter drops Acme, the top row.
\<close>

theorem truncated_slider_excludes_top:
  "(slider_bounds df = Inr (lo, hi) \<and> index_range sel = (lo, hi) \<and>
    filtered_df df sel = Inr out \<and> of_int hi < index_score r \<longrightarrow> r \<notin> set out) \<and>
   (df \<noteq> [] \<longrightarrow>
      slider_bounds df =
        Inr (py_trunc (Min (index_score ` set df)), py_trunc (Max (index_score ` set df)))) \<and>
   slider_bounds [sample_row ''000001'' ''Acme'' 2020 ''Tech'' 80.5,
                  sample_row ''000002'' ''Bolt'' 2020 ''Tech'' 10] = Inr (10, 80) \<and>
   filtered_df [sample_row ''000001'' ''Acme'' 2020 ''Tech'' 80.5,
                sample_row ''000002'' ''Bolt'' 2020 ''Tech'' 10]
     (sample_selection 2020 (10, 80) []) =
     Inr [sample_row ''000002'' ''Bolt'' 2020 ''Tech'' 10]"
proof -
  have a: "slider_bounds df = Inr (lo, hi) \<and> index_range sel = (lo, hi) \<and>
    filtered_df df sel = Inr out \<and> of_int hi < index_score r \<longrightarrow> r \<notin> set out"
    using filtered_df_in_range [of df sel out r] by auto
  have b: "slider_bounds [sample_row ''000001'' ''Acme'' 2020 ''Tech'' 80.5,
                  sample_row ''000002'' ''Bolt'' 2020 ''Tech'' 10] = Inr (10, 80)"
    by (simp add: slider_bounds_def py_int_def py_trunc_def sample_row_def)
  have c: "filtered_df [sample_row ''000001'' ''Acme'' 2020 ''Tech'' 80.5,
                sample_row ''000002'' ''Bolt'' 2020 ''Tech'' 10]
     (sample_selection 2020 (10, 80) []) =
     Inr [sample_row ''000002'' ''Bolt'' 2020 ''Tech'' 10]"
    by (simp add: run_filter_defs)
  from a b c slider_bounds_nonempty [of df] show ?thesis by blast
qed

theorem truncated_slider_excludes_top_witness:
  "slider_bounds [sample_row ''000001'' ''Acme'' 2020 ''Tech'' 99.9,
                  sample_row ''000002'' ''Bolt'' 2021 ''Tech'' 0.5] = Inr (0, 99) \<and>
   filtered_df [sample_row ''000001'' ''Acme'' 2020 ''Tech'' 99.9,
                sample_row ''000002'' ''Bolt'' 2021 ''Tech'' 0.5]
     (sample_selection 2020 (0, 99) []) = Inr [] \<and>
   sample_row ''000001'' ''Acme'' 2020 ''Tech'' 99.9 \<notin> set []"
proof -
  let ?df = "[sample_row ''000001'' ''Acme'' 2020 ''Tech'' 99.9,
                  sample_row ''000002'' ''Bolt'' 2021 ''Tech'' 0.5]"
  let ?sel = "sample_selection 2020 (0, 99) []"
  have ne: "?df \<noteq> []" by simp
  have b: "slider_bounds ?df = Inr (0, 99)"
    using truncated_slider_excludes_top [of ?df 0 99 ?sel "[]" "hd ?df"] ne
    by (simp add: py_trunc_def sample_row_def)
  have c: "filtered_df ?df ?sel = Inr []"
    by (simp add: run_filter_defs)
  have r: "index_range ?sel = (0, 99)" by (simp add: sample_selection_def)
  have s: "real_of_int 99 < index_score (sample_row ''000001'' ''Acme'' 2020 ''Tech'' 99.9)"
    by (simp add: sample_row_def)
  have "sample_row ''000001'' ''Acme'' 2020 ''Tech'' 99.9 \<notin> set []"
    using truncated_slider_excludes_top
      [of ?df 0 99 ?sel "[]" "sample_row ''000001'' ''Acme'' 2020 ''Tech'' 99.9"] b c r s
    by blast
  with b c show ?thesis by blast
qed

section \<open>The script: properties\<close>

lemma run_Inr:
  "run loaded sel = Inr pg \<Longrightarrow>
   df_after pg = map fillna_industry loaded \<and>
   filtered_df (map fillna_industry loaded) sel = Inr (filtered pg) \<and>
   cards pg = summary (map fillna_industry loaded) (filtered pg) \<and>
   ranking_table pg = display_df (filtered pg) \<and>
   industry_chart pg = take 10 (industry_avg (map fillna_industry loaded) (selected_year sel)) \<and>
   company_trend (map fillna_industry loaded) (company_search sel) = Inr (trend pg)"
  by (auto simp add: run_def Let_def split: sum.splits)







section \<open>Overview cards: properties\<close>


section \<open>Industry comparison: properties\<close>

lemma set_group_keys:
  "set (group_keys frame) = {k. \<exists>r\<in>set frame. industry_name r = Some k}"
proof -
  have "set (List.map_filter industry_name frame) =
        {k. \<exists>r\<in>set frame. industry_name r = Some k}"
    by (induction frame) (auto simp add: map_filter_simps split: option.splits)
  then show ?thesis by (simp add: group_keys_def)
qed

lemma distinct_group_keys: "distinct (group_keys frame)"
  by (simp add: group_keys_def)

lemma group_rows_filter_year:
  "group_rows (filter_year df y) k = filter (\<lambda>r. year r = y \<and> industry_name r = Some k) df"
  by (simp add: group_rows_def filter_year_eq conj_commute)

lemma industry_avg_set:
  "set (industry_avg df y) =
     (\<lambda>k. (k, mean_of (map index_score
              (filter (\<lambda>r. year r = y \<and> industry_name r = Some k) df)))) `
     {k. \<exists>r\<in>set df. year r = y \<and> industry_name r = Some k}"
proof -
  have k: "set (group_keys (filter_year df y)) =
           {k. \<exists>r\<in>set df. year r = y \<and> industry_name r = Some k}"
    by (auto simp add: set_group_keys filter_year_eq)
  have "set (industry_avg df y) =
     (\<lambda>k. (k, mean_of (map index_score (group_rows (filter_year df y) k)))) `
       set (group_keys (filter_year df y))"
    by (simp add: industry_avg_def industry_ranking_def sort_values_desc_def)
  then show ?thesis
    by (simp only: k group_rows_filter_year)
qed

lemma industry_avg_keys: "distinct (map fst (industry_avg df y))"
proof -
  let ?g = "\<lambda>k. (k, mean_of (map index_score (group_rows (filter_year df y) k)))"
  let ?xs = "map ?g (group_keys (filter_year df y))"
  have d: "distinct ?xs"
    by (simp add: distinct_map distinct_group_keys inj_on_def)
  have i: "inj_on fst (set ?xs)"
    by (auto simp add: inj_on_def)
  have "distinct (sort_key (\<lambda>x. - snd x) ?xs)" using d by simp
  moreover have "inj_on fst (set (sort_key (\<lambda>x. - snd x) ?xs))" using i by simp
  ultimately show ?thesis
    by (simp add: industry_avg_def industry_ranking_def sort_values_desc_def distinct_map)
qed

lemma industry_avg_sorted:
  "sorted_wrt (\<lambda>a b. snd b \<le> snd a) (industry_avg df y)"
  unfolding industry_avg_def industry_ranking_def by (rule sorted_desc_sort_values)

text \<open>
  C4. The industry comparison of a year: one entry per industry that has a row in that
  year, each with the mean score of the rows of that year and industry in the whole
  table, sorted so that every entry's mean is at least the next one's. The chart of a
  run shows the first ten entries for the selected year; the selected industry, range
  and search text do not enter.
\<close>

theorem industry_ranking_descending:
  "sorted_wrt (\<lambda>a b. snd b \<le> snd a) (industry_avg df y) \<and>
   (\<forall>i. Suc i < length (industry_avg df y) \<longrightarrow>
        snd (industry_avg df y ! Suc i) \<le> snd (industry_avg df y ! i)) \<and>
   distinct (map fst (industry_avg df y)) \<and>
   set (industry_avg df y) =
     (\<lambda>k. (k, mean_of (map index_score
              (filter (\<lambda>r. year r = y \<and> industry_name r = Some k) df)))) `
     {k. \<exists>r\<in>set df. year r = y \<and> industry_name r = Some k} \<and>
   (run loaded sel = Inr pg \<longrightarrow>
      industry_chart pg =
        take 10 (industry_avg (map fillna_industry loaded) (selected_year sel)))"
proof -
  have adj: "\<forall>i. Suc i < length (industry_avg df y) \<longrightarrow>
        snd (industry_avg df y ! Suc i) \<le> snd (industry_avg df y ! i)"
    using industry_avg_sorted [of df y] by (simp add: sorted_wrt_iff_nth_less)
  have r: "run loaded sel = Inr pg \<longrightarrow>
      industry_chart pg =
        take 10 (industry_avg (map fillna_industry loaded) (selected_year sel))"
    using run_Inr [of loaded sel pg] by blast
  from industry_avg_sorted [of df y] adj industry_avg_keys [of df y] industry_avg_set [of df y] r
  show ?thesis by blast
qed

lemma sample_ranking:
  "industry_avg [sample_row ''000001'' ''Acme'' 2020 ''Tech'' 80,
                 sample_row ''000002'' ''Bolt'' 2020 ''Tech'' 10,
                 sample_row ''000003'' ''Cat'' 2020 ''Food'' 60,
                 sample_row ''000004'' ''Dog'' 2021 ''Food'' 5] 2020 =
     [(u ''Food'', 60), (u ''Tech'', 45)]"
  by (simp add: industry_avg_def industry_ranking_def sort_values_desc_def group_keys_def
      group_rows_def mean_of_def map_filter_def filter_year_eq sample_row_def u_def)

theorem industry_ranking_descending_witness:
  "chart_of (run [sample_row ''000001'' ''Acme'' 2020 ''Tech'' 80,
                  sample_row ''000002'' ''Bolt'' 2020 ''Tech'' 10,
                  sample_row ''000003'' ''Cat'' 2020 ''Food'' 60,
                  sample_row ''000004'' ''Dog'' 2021 ''Food'' 5]
                 (sample_selection 2020 (70, 100) ''acme'')) =
     Some [(u ''Food'', 60), (u ''Tech'', 45)] \<and>
   Suc 0 < length [(u ''Food'', 60 :: real), (u ''Tech'', 45)] \<and>
   snd ([(u ''Food'', 60 :: real), (u ''Tech'', 45)] ! Suc 0)
     \<le> snd ([(u ''Food'', 60 :: real), (u ''Tech'', 45)] ! 0)"
proof -
  let ?T = "[sample_row ''000001'' ''Acme'' 2020 ''Tech'' 80,
                  sample_row ''000002'' ''Bolt'' 2020 ''Tech'' 10,
                  sample_row ''000003'' ''Cat'' 2020 ''Food'' 60,
                  sample_row ''000004'' ''Dog'' 2021 ''Food'' 5]"
  let ?sel = "sample_selection 2020 (70, 100) ''acme''"
  have f: "map fillna_industry ?T = ?T"
    by (simp add: fillna_industry_def sample_row_def)
  have y: "selected_year ?sel = 2020" by (simp add: sample_selection_def)
  have "\<exists>pg. run ?T ?sel = Inr pg"
    by (simp add: run_def Let_def slider_bounds_def py_int_def company_trend_def trend_df_def
      fillna_industry_def run_filter_defs)
  then obtain pg where p: "run ?T ?sel = Inr pg" by blast
  note t = industry_ranking_descending [of ?T 2020 ?T ?sel pg]
  from t p have "industry_chart pg = take 10 (industry_avg (map fillna_industry ?T) (selected_year ?sel))"
    by blast
  then have c: "industry_chart pg = [(u ''Food'', 60), (u ''Tech'', 45)]"
    by (simp only: f y sample_ranking) simp
  from t have "Suc 0 < length (industry_avg ?T 2020) \<longrightarrow>
        snd (industry_avg ?T 2020 ! Suc 0) \<le> snd (industry_avg ?T 2020 ! 0)"
    by blast
  then have a: "Suc 0 < length [(u ''Food'', 60 :: real), (u ''Tech'', 45)] \<and>
     snd ([(u ''Food'', 60 :: real), (u ''Tech'', 45)] ! Suc 0)
     \<le> snd ([(u ''Food'', 60 :: real), (u ''Tech'', 45)] ! 0)"
    by (simp only: sample_ranking) simp
  from p c have "chart_of (run ?T ?sel) = Some [(u ''Food'', 60), (u ''Tech'', 45)]"
    by (simp add: chart_of_def)
  with a show ?thesis by blast
qed

section \<open>Search texts without special characters\<close>

text \<open>
  Where the code and the specification's rule agree: a search text made of ordinary
  characters only compiles to the sequence of its letters, and searching for it is
  looking for it as a case-insensitive substring.
\<close>

lemma plain_not_operator:
  "plain c \<Longrightarrow> c \<noteq> 40 \<and> c \<noteq> 41 \<and> c \<noteq> 124 \<and> c \<noteq> 42 \<and> c \<noteq> 43 \<and> c \<noteq> 63 \<and> c \<noteq> 46"
  by (auto simp add: plain_def special_def)

lemma parse_plain:
  "\<forall>c\<in>set pat. plain c \<Longrightarrow>
   parse stk alts items q pat = parse stk alts (rev (map Lit pat) @ items) False []"
proof (induction pat arbitrary: items q)
  case Nil
  then show ?case by simp
next
  case (Cons c cs)
  then have "plain c" and rest: "\<forall>c\<in>set cs. plain c" by simp_all
  from \<open>plain c\<close> plain_not_operator [of c]
  have "parse stk alts items q (c # cs) = parse stk alts (Lit c # items) False cs"
    by simp
  also have "\<dots> = parse stk alts (rev (map Lit cs) @ Lit c # items) False []"
    using Cons.IH [OF rest] by blast
  finally show ?case by simp
qed

lemma re_compile_plain:
  "\<forall>c\<in>set pat. plain c \<Longrightarrow> re_compile pat = Inr (foldr Seq (map Lit pat) One)"
  by (simp add: re_compile_def parse_plain close_group_def branch_def)

lemma match_here_Alt: "match_here (Alt a b) s = (match_here a s \<or> match_here b s)"
  by (induction s arbitrary: a b) auto

lemma match_here_Seq_Zero: "match_here (Seq Zero r) s = False"
  by (induction s) auto

lemma match_here_Seq_One: "match_here (Seq One r) s = match_here r s"
  by (cases s) (simp_all add: match_here_Alt match_here_Seq_Zero)

lemma match_here_literal:
  "match_here (foldr Seq (map Lit pat) One) s = starts_with_ci s pat"
proof (induction pat arbitrary: s)
  case Nil
  then show ?case by (cases s) simp_all
next
  case (Cons c cs)
  show ?case
  proof (cases s)
    case Nil
    then show ?thesis by simp
  next
    case (Cons d ds)
    then show ?thesis
      using Cons.IH [of ds] by (simp add: match_here_Seq_One match_here_Seq_Zero)
  qed
qed

lemma nullable_literal: "nullable (foldr Seq (map Lit pat) One) = (pat = [])"
  by (cases pat) simp_all

lemma re_search_literal:
  "re_search (foldr Seq (map Lit pat) One) s = spec_contains pat s"
  by (induction s) (simp_all add: nullable_literal match_here_literal del: match_here.simps)

lemma plain_search_is_literal:
  "\<forall>c\<in>set pat. plain c \<Longrightarrow> str_contains pat col = Inr (map (spec_contains pat) col)"
  by (simp add: str_contains_def re_compile_plain re_search_literal)

section \<open>From the loaded frame to the table of the dashboard\<close>

text \<open>
  A row of a successful load has a text as stock code and an integer as year, so it
  reads as a row of the dashboard's table as soon as its company name is a text, its
  score a number and its industry a text or missing.
\<close>

lemma as_row_loaded:
  assumes "load_data env sheet = Some df" and "r \<in> set df"
  shows "as_row r \<noteq> None \<longleftrightarrow>
     (\<exists>n. raw_company_name r = S n) \<and> as_number (raw_index_score r) \<noteq> None \<and>
     (raw_industry_name r = Null \<or> (\<exists>i. raw_industry_name r = S i))"
proof -
  from assms obtain raw where "sheet = Some raw"
    by (cases sheet) (simp_all add: load_data_def)
  with assms have "(\<exists>s. raw_stock_code r = S s) \<and> (\<exists>y. raw_year r = I y)"
    using load_data_Some_eq [of env raw df] by (auto simp add: normalize_stock_code_eq)
  then show ?thesis
    by (auto split: cell.splits option.splits)
qed

end
